theory Spec2Isabelle
  imports Complex_Main
begin

section \<open>Python values used by the two modules\<close>

text \<open>
  Exceptions are values. \<open>DriverError\<close> stands for whatever exception the external
  \<open>st3215\<close> driver raises; its argument is what \<open>str(e)\<close> gives. \<open>AttributeError\<close> is
  what a method call on \<open>self.st3215 = None\<close> raises. \<open>CommandError\<close> is the host's
  \<open>printer.command_error\<close>.
\<close>

datatype exn =
    ValueError string
  | ST3215BusError string
  | Exception string
  | DriverError string
  | AttributeError string
  | CommandError string

fun str_exn :: "exn \<Rightarrow> string" where
  "str_exn (ValueError m) = m"
| "str_exn (ST3215BusError m) = m"
| "str_exn (Exception m) = m"
| "str_exn (DriverError m) = m"
| "str_exn (AttributeError m) = m"
| "str_exn (CommandError m) = m"

text \<open>\<open>str(n)\<close> for an integer, as the f-strings of the source print it.\<close>

function str_nat :: "nat \<Rightarrow> string" where
  "str_nat n =
     (if n < 10 then [''0123456789'' ! n]
      else str_nat (n div 10) @ [''0123456789'' ! (n mod 10)])"
  by pat_completeness auto
termination
  by (relation "measure id") auto

declare str_nat.simps [simp del]

definition str_int :: "int \<Rightarrow> string" where
  "str_int i = (if i < 0 then ''-'' @ str_nat (nat (- i)) else str_nat (nat i))"

section \<open>The environment: serial port, driver, log, clock\<close>

text \<open>
  The driver primitives that the modelled methods call, with their arguments.
\<close>

datatype request =
    MoveTo int int int int
  | ReadPosition int
  | ReadTemperature int
  | ReadVoltage int
  | ReadCurrent int
  | PingServo int

fun method_name :: "request \<Rightarrow> string" where
  "method_name (MoveTo _ _ _ _) = ''MoveTo''"
| "method_name (ReadPosition _) = ''ReadPosition''"
| "method_name (ReadTemperature _) = ''ReadTemperature''"
| "method_name (ReadVoltage _) = ''ReadVoltage''"
| "method_name (ReadCurrent _) = ''ReadCurrent''"
| "method_name (PingServo _) = ''PingServo''"

text \<open>
  What a driver primitive does when called: it raises, or it returns a number or
  \<open>None\<close>. Voltage and current are only stored by the modelled code, never computed
  with, so one numeric type serves for all readings.
\<close>

datatype reply = Raises string | Returns "int option"

datatype level = Debug | Info | Warning | Error

text \<open>
  Everything the code does to the outside, in order. The flag of a port or driver
  event tells whether \<open>self.lock\<close> of the bus was held at that moment.
\<close>

datatype event =
    Log level string
  | Sleep real
  | Open_port string bool
  | Close_port bool
  | Call request bool
  | Shutdown string

text \<open>
  The environment is a script: \<open>port_replies n\<close> is what the \<open>n\<close>-th operation on the
  serial port does (opening it through \<open>st3215.ST3215(port)\<close>, or \<open>closePort\<close>):
  \<open>None\<close> when it works, the exception's text when it raises. \<open>replies n\<close> is what the
  \<open>n\<close>-th call of a driver primitive does. \<open>has_portHandler\<close> is the result of
  \<open>hasattr(self.st3215, "portHandler")\<close>.
\<close>

record env =
  trace :: "event list"
  port_replies :: "nat \<Rightarrow> string option"
  port_ops :: nat
  replies :: "nat \<Rightarrow> reply"
  calls :: nat
  has_portHandler :: bool

section \<open>ST3215Bus\<close>

datatype driver = ST3215 string

text \<open>
  The fields of \<open>ST3215Bus.__init__\<close>. \<open>lock_held\<close> is the state of
  \<open>self.lock = threading.Lock()\<close>, a lock that is not reentrant. The record extends
  the environment the bus acts on.
\<close>

record bus = env +
  serial_port :: string
  baudrate :: int
  st3215 :: "driver option"
  connected :: bool
  lock_held :: bool
  bus_last_error :: "string option"
  reconnect_attempt :: int
  max_reconnect_attempts :: int
  position_cache :: "int \<rightharpoonup> int"

definition emit :: "event \<Rightarrow> bus \<Rightarrow> bus" where
  "emit e b = b\<lparr>trace := trace b @ [e]\<rparr>"

text \<open>
  A method returns \<open>Some (r, b')\<close>, its result (or the exception it raises) and the
  state it leaves, or \<open>None\<close> when it never returns.

  \<open>with self.lock:\<close> blocks for ever when the lock is already held (there is one
  thread of control in this model, so nobody will release it); otherwise the body
  runs with the lock held and the lock is released however the body ends.
\<close>

definition with_lock :: "(bus \<Rightarrow> ('a \<times> bus) option) \<Rightarrow> bus \<Rightarrow> ('a \<times> bus) option" where
  "with_lock body b =
     (if lock_held b then None
      else (case body (b\<lparr>lock_held := True\<rparr>) of
              None \<Rightarrow> None
            | Some (r, b') \<Rightarrow> Some (r, b'\<lparr>lock_held := False\<rparr>)))"

text \<open>\<open>self.st3215.<method>(...)\<close>: one call of a driver primitive.\<close>

definition call :: "request \<Rightarrow> bus \<Rightarrow> ((exn + int option) \<times> bus) option" where
  "call rq b =
     (case st3215 b of
        None \<Rightarrow>
          Some (Inl (AttributeError
                  ([CHR 0x27] @ ''NoneType'' @ [CHR 0x27] @ '' object has no attribute ''
                    @ [CHR 0x27] @ method_name rq @ [CHR 0x27])), b)
      | Some d \<Rightarrow>
          Some (case replies b (calls b) of
                  Raises m \<Rightarrow> Inl (DriverError m)
                | Returns v \<Rightarrow> Inr v,
                emit (Call rq (lock_held b)) (b\<lparr>calls := calls b + 1\<rparr>)))"

text \<open>\<open>ST3215Bus.connect\<close>\<close>

definition connect :: "bus \<Rightarrow> ((exn + unit) \<times> bus) option" where
  "connect =
     with_lock (\<lambda>b.
       if connected b then Some (Inr (), b)
       else
         (let b1 = emit (Open_port (serial_port b) (lock_held b)) (b\<lparr>port_ops := port_ops b + 1\<rparr>)
          in case port_replies b (port_ops b) of
               None \<Rightarrow>
                 Some (Inr (),
                   emit (Log Info (''ST3215Bus: Connected to '' @ serial_port b))
                     (b1\<lparr>st3215 := Some (ST3215 (serial_port b)), connected := True,
                         reconnect_attempt := 0, bus_last_error := None\<rparr>))
             | Some e \<Rightarrow>
                 (let error_msg = ''Failed to connect to '' @ serial_port b @ '': '' @ e
                  in Some (Inl (ST3215BusError error_msg),
                       emit (Log Error (''ST3215Bus: '' @ error_msg))
                         (b1\<lparr>connected := False, bus_last_error := Some e\<rparr>)))))"

text \<open>\<open>ST3215Bus.disconnect\<close>: a failure of \<open>closePort\<close> is swallowed.\<close>

definition disconnect :: "bus \<Rightarrow> ((exn + unit) \<times> bus) option" where
  "disconnect =
     with_lock (\<lambda>b.
       case st3215 b of
         None \<Rightarrow> Some (Inr (), b)
       | Some d \<Rightarrow>
           (let b1 = (if has_portHandler b
                      then emit (Close_port (lock_held b)) (b\<lparr>port_ops := port_ops b + 1\<rparr>)
                      else b)
            in Some (Inr (),
                 emit (Log Info (''ST3215Bus: Disconnected from '' @ serial_port b))
                   (b1\<lparr>st3215 := None, connected := False\<rparr>))))"

text \<open>
  \<open>ST3215Bus._execute_with_retry\<close>. The \<open>try\<close> block of one attempt: connect when
  not connected, run \<open>func\<close>, and on success reset the reconnect counter.
\<close>

definition attempt_once ::
  "string \<Rightarrow> (bus \<Rightarrow> ((exn + int option) \<times> bus) option) \<Rightarrow> bus
     \<Rightarrow> ((exn + int option) \<times> bus) option" where
  "attempt_once operation_name func b =
     (case (if \<not> connected b then connect b else Some (Inr (), b)) of
        None \<Rightarrow> None
      | Some (Inl e, b1) \<Rightarrow> Some (Inl e, b1)
      | Some (Inr u, b1) \<Rightarrow>
          (case func b1 of
             None \<Rightarrow> None
           | Some (Inl e, b2) \<Rightarrow> Some (Inl e, b2)
           | Some (Inr result, b2) \<Rightarrow>
               Some (Inr result,
                 if reconnect_attempt b2 > 0
                 then (emit (Log Info (''ST3215Bus: '' @ operation_name @ '' succeeded after reconnect''))
                         b2)\<lparr>reconnect_attempt := 0\<rparr>
                 else b2)))"

text \<open>
  The inner \<open>try\<close> of the handler: disconnect, sleep half a second, connect, count the
  reconnect; an exception on the way is dropped by the bare \<open>except: pass\<close>.
\<close>

definition reconnect :: "bus \<Rightarrow> bus option" where
  "reconnect b =
     (case disconnect b of
        None \<Rightarrow> None
      | Some (Inl e, b1) \<Rightarrow> Some b1
      | Some (Inr u, b1) \<Rightarrow>
          (case connect (emit (Sleep 0.5) b1) of
             None \<Rightarrow> None
           | Some (Inl e, b2) \<Rightarrow> Some b2
           | Some (Inr u', b2) \<Rightarrow> Some (b2\<lparr>reconnect_attempt := reconnect_attempt b2 + 1\<rparr>)))"

text \<open>
  The \<open>for attempt in range(max_retries)\<close> loop, from the iteration \<open>attempt\<close> on.
  When the range is exhausted without a \<open>return\<close> or \<open>raise\<close> (only when
  \<open>max_retries \<le> 0\<close>), the method falls off its end and returns \<open>None\<close>.
\<close>

function retry_loop ::
  "string \<Rightarrow> (bus \<Rightarrow> ((exn + int option) \<times> bus) option) \<Rightarrow> int \<Rightarrow> int \<Rightarrow> bus
     \<Rightarrow> ((exn + int option) \<times> bus) option" where
  "retry_loop operation_name func max_retries attempt b =
     (if max_retries \<le> attempt then Some (Inr None, b)
      else
        (case attempt_once operation_name func b of
           None \<Rightarrow> None
         | Some (Inr result, b1) \<Rightarrow> Some (Inr result, b1)
         | Some (Inl e, b1) \<Rightarrow>
             (let b2 = b1\<lparr>bus_last_error := Some (str_exn e)\<rparr>
              in if attempt < max_retries - 1
                 then
                   (case reconnect
                           (emit (Log Warning
                              (''ST3215Bus: '' @ operation_name @ '' failed (attempt ''
                                @ str_int (attempt + 1) @ ''/'' @ str_int max_retries @ ''): ''
                                @ str_exn e)) b2) of
                      None \<Rightarrow> None
                    | Some b3 \<Rightarrow> retry_loop operation_name func max_retries (attempt + 1) b3)
                 else
                   (let error_msg = operation_name @ '' failed after '' @ str_int max_retries
                                      @ '' attempts: '' @ str_exn e
                    in Some (Inl (ST3215BusError error_msg),
                         emit (Log Error (''ST3215Bus: '' @ error_msg)) b2)))))"
  by pat_completeness auto
termination
  by (relation "measure (\<lambda>(nm, f, mx, a, b). nat (mx - a))") auto

declare retry_loop.simps [simp del]

definition execute_with_retry ::
  "bus \<Rightarrow> string \<Rightarrow> (bus \<Rightarrow> ((exn + int option) \<times> bus) option) \<Rightarrow> int
     \<Rightarrow> ((exn + int option) \<times> bus) option" where
  "execute_with_retry b operation_name func max_retries =
     retry_loop operation_name func max_retries 0 b"

text \<open>\<open>ST3215Bus.ping_servo\<close>: any failure gives \<open>False\<close>, here the falsy \<open>Some 0\<close>.\<close>

definition ping_servo :: "bus \<Rightarrow> int \<Rightarrow> (int option \<times> bus) option" where
  "ping_servo b servo_id =
     with_lock (\<lambda>b.
       case (if \<not> connected b then connect b else Some (Inr (), b)) of
         None \<Rightarrow> None
       | Some (Inl e, b1) \<Rightarrow>
           Some (Some 0,
             emit (Log Error (''ST3215Bus: Failed to ping servo '' @ str_int servo_id @ '': ''
                               @ str_exn e)) b1)
       | Some (Inr u, b1) \<Rightarrow>
           (case call (PingServo servo_id) b1 of
              None \<Rightarrow> None
            | Some (Inl e, b2) \<Rightarrow>
                Some (Some 0,
                  emit (Log Error (''ST3215Bus: Failed to ping servo '' @ str_int servo_id @ '': ''
                                    @ str_exn e)) b2)
            | Some (Inr v, b2) \<Rightarrow> Some (v, b2))) b"

text \<open>\<open>ST3215Bus.move_to\<close>, with max_retries at its default 3.\<close>

definition bus_move_to :: "bus \<Rightarrow> int \<Rightarrow> int \<Rightarrow> int \<Rightarrow> int \<Rightarrow> ((exn + unit) \<times> bus) option" where
  "bus_move_to b servo_id position speed acceleration =
     (case execute_with_retry b
             (''MoveTo(servo='' @ str_int servo_id @ '', pos='' @ str_int position @ '')'')
             (call (MoveTo servo_id position speed acceleration)) 3 of
        None \<Rightarrow> None
      | Some (Inl e, b1) \<Rightarrow> Some (Inl e, b1)
      | Some (Inr r, b1) \<Rightarrow>
          Some (Inr (), b1\<lparr>position_cache := (position_cache b1)(servo_id \<mapsto> position)\<rparr>))"

text \<open>
  \<open>ST3215Bus.read_position\<close>. \<open>except ST3215BusError\<close> catches that class only; any
  other exception would propagate.
\<close>

definition read_position :: "bus \<Rightarrow> int \<Rightarrow> ((exn + int option) \<times> bus) option" where
  "read_position b servo_id =
     (case execute_with_retry b (''ReadPosition(servo='' @ str_int servo_id @ '')'')
             (call (ReadPosition servo_id)) 3 of
        None \<Rightarrow> None
      | Some (Inr pos, b1) \<Rightarrow>
          Some (Inr pos,
            case pos of
              None \<Rightarrow> b1
            | Some p \<Rightarrow> b1\<lparr>position_cache := (position_cache b1)(servo_id \<mapsto> p)\<rparr>)
      | Some (Inl e, b1) \<Rightarrow>
          (case e of
             ST3215BusError m \<Rightarrow>
               (let cached = position_cache b1 servo_id
                in Some (Inr cached,
                     case cached of
                       None \<Rightarrow> b1
                     | Some c \<Rightarrow>
                         emit (Log Warning (''ST3215Bus: Using cached position for servo ''
                                 @ str_int servo_id @ '': '' @ str_int c)) b1))
           | _ \<Rightarrow> Some (Inl e, b1)))"

text \<open>
  \<open>ST3215Bus.read_temperature\<close>, \<open>read_voltage\<close>, \<open>read_current\<close>: one attempt under
  the lock, a failure gives \<open>None\<close>. They differ in the primitive and the word logged.
\<close>

definition read_telemetry :: "request \<Rightarrow> string \<Rightarrow> bus \<Rightarrow> (int option \<times> bus) option" where
  "read_telemetry rq what =
     with_lock (\<lambda>b.
       case (if \<not> connected b then connect b else Some (Inr (), b)) of
         None \<Rightarrow> None
       | Some (Inl e, b1) \<Rightarrow>
           Some (None,
             emit (Log Debug (''ST3215Bus: Failed to read '' @ what @ '': '' @ str_exn e)) b1)
       | Some (Inr u, b1) \<Rightarrow>
           (case call rq b1 of
              None \<Rightarrow> None
            | Some (Inl e, b2) \<Rightarrow>
                Some (None,
                  emit (Log Debug (''ST3215Bus: Failed to read '' @ what @ '': '' @ str_exn e)) b2)
            | Some (Inr v, b2) \<Rightarrow> Some (v, b2)))"

definition read_temperature :: "bus \<Rightarrow> int \<Rightarrow> (int option \<times> bus) option" where
  "read_temperature b servo_id = read_telemetry (ReadTemperature servo_id) ''temperature'' b"

definition read_voltage :: "bus \<Rightarrow> int \<Rightarrow> (int option \<times> bus) option" where
  "read_voltage b servo_id = read_telemetry (ReadVoltage servo_id) ''voltage'' b"

definition read_current :: "bus \<Rightarrow> int \<Rightarrow> (int option \<times> bus) option" where
  "read_current b servo_id = read_telemetry (ReadCurrent servo_id) ''current'' b"

text \<open>\<open>ST3215Bus.read_status\<close>: the dictionary's three values, read in this order.\<close>

record status =
  temperature :: "int option"
  voltage :: "int option"
  current :: "int option"

definition read_status :: "bus \<Rightarrow> int \<Rightarrow> (status \<times> bus) option" where
  "read_status b servo_id =
     (case read_temperature b servo_id of
        None \<Rightarrow> None
      | Some (t, b1) \<Rightarrow>
          (case read_voltage b1 servo_id of
             None \<Rightarrow> None
           | Some (v, b2) \<Rightarrow>
               (case read_current b2 servo_id of
                  None \<Rightarrow> None
                | Some (c, b3) \<Rightarrow>
                    Some (\<lparr>temperature = t, voltage = v, current = c\<rparr>, b3))))"

section \<open>ST3215Servo\<close>

text \<open>
  The fields of \<open>ST3215Servo.__init__\<close>: the configuration, the bus the servo talks
  through, and the tracked state. Times are Python floats; they are reals here, so
  the rounding of \<open>+\<close> and \<open>-\<close> is not modelled: what depends on the outcome of the
  test \<open>eventtime - last_status_update > 5.0\<close> or on the value of the wake time is
  said of the code only where the float operations are exact, as they are at the
  times 1 and 10 used below.
\<close>

record servo =
  name :: string
  servo_id :: int
  position_min :: int
  position_max :: int
  max_speed :: int
  max_accel :: int
  initial_position :: "int option"
  status_update_interval :: real
  temperature_warning :: int
  temperature_critical :: int
  bus :: bus
  current_position :: "int option"
  target_position :: "int option"
  is_moving :: bool
  enabled :: bool
  last_status_update :: real
  cached_temperature :: "int option"
  cached_current :: "int option"
  cached_voltage :: "int option"
  last_error :: "string option"

text \<open>A call of \<open>logging\<close> or of the host printer from the servo.\<close>

definition servo_emit :: "event \<Rightarrow> servo \<Rightarrow> servo" where
  "servo_emit e s = s\<lparr>bus := emit e (bus s)\<rparr>"

text \<open>\<open>ST3215Servo._validate_position\<close>\<close>

definition validate_position :: "servo \<Rightarrow> int \<Rightarrow> exn + int" where
  "validate_position s position =
     (if position < position_min s
      then Inl (ValueError (''Position '' @ str_int position @ '' below minimum ''
                             @ str_int (position_min s)))
      else if position > position_max s
      then Inl (ValueError (''Position '' @ str_int position @ '' above maximum ''
                             @ str_int (position_max s)))
      else Inr position)"

text \<open>
  \<open>ST3215Servo._check_temperature\<close>. The degree sign of the messages is the
  character U+00B0.
\<close>

definition check_temperature :: "servo \<Rightarrow> (exn + unit) \<times> servo" where
  "check_temperature s =
     (case cached_temperature s of
        None \<Rightarrow> (Inr (), s)
      | Some t \<Rightarrow>
          if t \<ge> temperature_critical s
          then (let msg = ''ST3215 '' @ name s @ '' temperature critical: '' @ str_int t
                            @ [CHR 0xB0] @ ''C''
                in (Inl (Exception msg), servo_emit (Shutdown msg) (servo_emit (Log Error msg) s)))
          else if t \<ge> temperature_warning s
          then (Inr (),
                servo_emit (Log Warning (''ST3215 '' @ name s @ '' temperature high: '' @ str_int t
                                          @ [CHR 0xB0] @ ''C'')) s)
          else (Inr (), s))"

text \<open>\<open>ST3215Servo.move_to\<close>\<close>

definition move_to :: "servo \<Rightarrow> int \<Rightarrow> int option \<Rightarrow> int option \<Rightarrow> ((exn + unit) \<times> servo) option" where
  "move_to s position speed accel =
     (case validate_position s position of
        Inl e \<Rightarrow> Some (Inl e, s)
      | Inr position \<Rightarrow>
          (case check_temperature s of
             (Inl e, s1) \<Rightarrow> Some (Inl e, s1)
           | (Inr u, s1) \<Rightarrow>
               (let speed = (case speed of None \<Rightarrow> max_speed s1 | Some v \<Rightarrow> v);
                    accel = (case accel of None \<Rightarrow> max_accel s1 | Some v \<Rightarrow> v);
                    speed = max 0 (min 3400 speed);
                    accel = max 0 (min 254 accel)
                in case bus_move_to (bus s1) (servo_id s1) position speed accel of
                     None \<Rightarrow> None
                   | Some (Inl e, b1) \<Rightarrow> Some (Inl e, s1\<lparr>bus := b1\<rparr>)
                   | Some (Inr u', b1) \<Rightarrow>
                       Some (Inr (),
                         servo_emit (Log Info (''ST3215Servo: '' @ name s1 @ '' moving to ''
                                      @ str_int position @ '' (speed='' @ str_int speed
                                      @ '', accel='' @ str_int accel @ '')''))
                           (s1\<lparr>bus := b1, target_position := Some position,
                               is_moving := True\<rparr>)))))"

text \<open>\<open>ST3215Servo.stop\<close>\<close>

definition stop :: "servo \<Rightarrow> ((exn + unit) \<times> servo) option" where
  "stop s =
     (case read_position (bus s) (servo_id s) of
        None \<Rightarrow> None
      | Some (Inl e, b1) \<Rightarrow> Some (Inl e, s\<lparr>bus := b1\<rparr>)
      | Some (Inr None, b1) \<Rightarrow> Some (Inr (), s\<lparr>bus := b1\<rparr>)
      | Some (Inr (Some pos), b1) \<Rightarrow>
          (let s1 = s\<lparr>bus := b1, current_position := Some pos\<rparr>
           in case bus_move_to (bus s1) (servo_id s1) pos 0 0 of
                None \<Rightarrow> None
              | Some (Inl e, b2) \<Rightarrow> Some (Inl e, s1\<lparr>bus := b2\<rparr>)
              | Some (Inr u, b2) \<Rightarrow>
                  Some (Inr (),
                    servo_emit (Log Info (''ST3215Servo: '' @ name s1 @ '' stopped at position ''
                                           @ str_int pos))
                      (s1\<lparr>bus := b2, target_position := Some pos, is_moving := False\<rparr>))))"

text \<open>\<open>ST3215Servo.set_position\<close>\<close>

definition set_position :: "servo \<Rightarrow> int \<Rightarrow> (exn + unit) \<times> servo" where
  "set_position s position =
     (case validate_position s position of
        Inl e \<Rightarrow> (Inl e, s)
      | Inr position \<Rightarrow>
          (Inr (),
           servo_emit (Log Info (''ST3215Servo: '' @ name s @ '' position set to ''
                                  @ str_int position))
             (s\<lparr>current_position := Some position, target_position := Some position\<rparr>)))"

text \<open>
  \<open>ST3215Servo._handle_connect\<close>. \<open>not v\<close> holds of \<open>None\<close>, \<open>False\<close> and \<open>0\<close>. The
  \<open>except Exception\<close> around the body turns every exception, also the
  \<open>command_error\<close> of a servo that does not answer, into a \<open>command_error\<close>.
\<close>

definition falsy :: "int option \<Rightarrow> bool" where
  "falsy v = (v = None \<or> v = Some 0)"

definition handle_connect_body :: "servo \<Rightarrow> ((exn + unit) \<times> servo) option" where
  "handle_connect_body s =
     (case connect (bus s) of
        None \<Rightarrow> None
      | Some (Inl e, b1) \<Rightarrow> Some (Inl e, s\<lparr>bus := b1\<rparr>)
      | Some (Inr u, b1) \<Rightarrow>
          (case ping_servo b1 (servo_id s) of
             None \<Rightarrow> None
           | Some (v, b2) \<Rightarrow>
               if falsy v
               then Some (Inl (CommandError (''Servo ID '' @ str_int (servo_id s) @ '' not found on ''
                                             @ serial_port b2)), s\<lparr>bus := b2\<rparr>)
               else
                 (let s1 = servo_emit (Log Info (''ST3215Servo: '' @ name s @ '' detected on bus''))
                             (s\<lparr>bus := b2\<rparr>)
                  in case read_position (bus s1) (servo_id s1) of
                       None \<Rightarrow> None
                     | Some (Inl e, b3) \<Rightarrow> Some (Inl e, s1\<lparr>bus := b3\<rparr>)
                     | Some (Inr None, b3) \<Rightarrow> Some (Inr (), s1\<lparr>bus := b3\<rparr>)
                     | Some (Inr (Some pos), b3) \<Rightarrow>
                         Some (Inr (),
                           servo_emit (Log Info (''ST3215Servo: '' @ name s1 @ '' initial position: ''
                                                  @ str_int pos))
                             (s1\<lparr>bus := b3, current_position := Some pos,
                                 target_position := Some pos\<rparr>)))))"

definition handle_connect :: "servo \<Rightarrow> ((exn + unit) \<times> servo) option" where
  "handle_connect s =
     (case handle_connect_body s of
        None \<Rightarrow> None
      | Some (Inr u, s1) \<Rightarrow> Some (Inr (), s1)
      | Some (Inl e, s1) \<Rightarrow>
          Some (Inl (CommandError (''Failed to initialize '' @ name s1 @ '': '' @ str_exn e)), s1))"

text \<open>
  \<open>ST3215Servo._update_status_timer\<close>. First the body of its \<open>try\<close>. \<open>if status:\<close>
  holds, the dictionary has three keys. The inner \<open>try\<close> drops the exception of
  \<open>_check_temperature\<close> and keeps what it did before raising.
\<close>

definition status_body :: "servo \<Rightarrow> real \<Rightarrow> ((exn + unit) \<times> servo) option" where
  "status_body s eventtime =
     (case read_position (bus s) (servo_id s) of
        None \<Rightarrow> None
      | Some (Inl e, b1) \<Rightarrow> Some (Inl e, s\<lparr>bus := b1\<rparr>)
      | Some (Inr pos, b1) \<Rightarrow>
          (let s1 = (case pos of
                       None \<Rightarrow> s\<lparr>bus := b1\<rparr>
                     | Some p \<Rightarrow>
                         (case target_position s of
                            None \<Rightarrow> s\<lparr>bus := b1, current_position := Some p\<rparr>
                          | Some t \<Rightarrow> s\<lparr>bus := b1, current_position := Some p,
                                        is_moving := (\<bar>p - t\<bar> > 5)\<rparr>))
           in if eventtime - last_status_update s1 > 5.0
              then
                (case read_status (bus s1) (servo_id s1) of
                   None \<Rightarrow> None
                 | Some (st, b2) \<Rightarrow>
                     (let s2 = s1\<lparr>bus := b2, cached_temperature := temperature st,
                                  cached_current := current st, cached_voltage := voltage st\<rparr>;
                          s3 = snd (check_temperature s2)
                      in Some (Inr (), s3\<lparr>last_status_update := eventtime, last_error := None\<rparr>)))
              else Some (Inr (), s1\<lparr>last_error := None\<rparr>)))"

definition update_status_timer :: "servo \<Rightarrow> real \<Rightarrow> (real \<times> servo) option" where
  "update_status_timer s eventtime =
     (case status_body s eventtime of
        None \<Rightarrow> None
      | Some (Inr u, s1) \<Rightarrow> Some (eventtime + status_update_interval s1, s1)
      | Some (Inl e, s1) \<Rightarrow>
          Some (eventtime + status_update_interval s1,
            servo_emit (Log Debug (''ST3215Servo: Status update error for '' @ name s1 @ '': ''
                                    @ str_exn e))
              (s1\<lparr>last_error := Some (str_exn e)\<rparr>)))"

section \<open>Vocabulary of the properties\<close>

text \<open>
  The events of one reconnect cycle on a bus whose port works: the close of the
  port (when the driver object has a \<open>portHandler\<close>), the half second of backoff,
  the reopening. The events of one failed attempt of three: the driver call and the
  warning that counts the attempt.
\<close>

fun is_sleep :: "event \<Rightarrow> bool" where
  "is_sleep (Sleep d) = True"
| "is_sleep _ = False"

definition reconnect_cycle :: "bus \<Rightarrow> event list" where
  "reconnect_cycle b =
     (if has_portHandler b then [Close_port True] else [])
     @ [Log Info (''ST3215Bus: Disconnected from '' @ serial_port b),
        Sleep 0.5,
        Open_port (serial_port b) True,
        Log Info (''ST3215Bus: Connected to '' @ serial_port b)]"

definition failed_attempt :: "string \<Rightarrow> request \<Rightarrow> int \<Rightarrow> string \<Rightarrow> event list" where
  "failed_attempt nm rq k e =
     [Call rq False,
      Log Warning (''ST3215Bus: '' @ nm @ '' failed (attempt '' @ str_int k @ ''/3): '' @ e)]"


text \<open>The speed and the acceleration that \<open>move_to\<close> hands to the bus.\<close>

definition clamp_speed :: "servo \<Rightarrow> int option \<Rightarrow> int" where
  "clamp_speed s speed = max 0 (min 3400 (case speed of None \<Rightarrow> max_speed s | Some v \<Rightarrow> v))"

definition clamp_accel :: "servo \<Rightarrow> int option \<Rightarrow> int" where
  "clamp_accel s accel = max 0 (min 254 (case accel of None \<Rightarrow> max_accel s | Some v \<Rightarrow> v))"

text \<open>A tracked position that is unknown, or known and within the configured limits.\<close>

definition within_limits :: "servo \<Rightarrow> int option \<Rightarrow> bool" where
  "within_limits s v =
     (case v of None \<Rightarrow> True | Some p \<Rightarrow> position_min s \<le> p \<and> p \<le> position_max s)"

text \<open>
  The tracked state of a servo that the claims name: current position, target
  position, the motion flag, the enabled flag.
\<close>

definition tracked :: "servo \<Rightarrow> int option \<times> int option \<times> bool \<times> bool" where
  "tracked s = (current_position s, target_position s, is_moving s, enabled s)"

text \<open>
  A bus that is not connected, with nobody holding its lock, on a port that cannot
  be opened: every attempt to open it raises \<open>e\<close>.
\<close>

definition unplugged :: "bus \<Rightarrow> string \<Rightarrow> bool" where
  "unplugged b e = (\<not> lock_held b \<and> \<not> connected b \<and> st3215 b = None
                     \<and> (\<forall>n. port_replies b n = Some e))"

section \<open>Scenarios\<close>

text \<open>
  A connected bus on a line without faults whose servo answers every request with
  2048; the same line with the servo resting at 100; a line where the first two
  driver calls time out; a line where every driver call times out, with 2048 cached
  for servo 1; and an adapter that has been unplugged, so that the port cannot be
  opened.
\<close>

definition sim_bus :: bus where
  "sim_bus = \<lparr>trace = [], port_replies = (\<lambda>n. None), port_ops = 1,
      replies = (\<lambda>n. Returns (Some 2048)), calls = 0, has_portHandler = True,
      serial_port = ''/dev/ttyUSB0'', baudrate = 1000000,
      st3215 = Some (ST3215 ''/dev/ttyUSB0''), connected = True, lock_held = False,
      bus_last_error = None, reconnect_attempt = 0, max_reconnect_attempts = 3,
      position_cache = Map.empty\<rparr>"

definition low_bus :: bus where
  "low_bus = sim_bus\<lparr>replies := (\<lambda>n. Returns (Some 100))\<rparr>"

definition flaky_bus :: bus where
  "flaky_bus =
     sim_bus\<lparr>replies := (\<lambda>n. if n < 2 then Raises ''no status packet'' else Returns (Some 2048))\<rparr>"

definition dead_bus :: bus where
  "dead_bus = sim_bus\<lparr>replies := (\<lambda>n. Raises ''no status packet''),
                      position_cache := [1 \<mapsto> 2048]\<rparr>"

definition unplugged_bus :: bus where
  "unplugged_bus = \<lparr>trace = [], port_replies = (\<lambda>n. Some ''could not open port''), port_ops = 0,
      replies = (\<lambda>n. Raises ''no status packet''), calls = 0, has_portHandler = True,
      serial_port = ''/dev/ttyUSB0'', baudrate = 1000000,
      st3215 = None, connected = False, lock_held = False,
      bus_last_error = None, reconnect_attempt = 0, max_reconnect_attempts = 3,
      position_cache = [1 \<mapsto> 2048]\<rparr>"

text \<open>
  A bus that was connected and running when the adapter was pulled: the object still
  says connected, every driver call raises, and the port can no longer be opened.
\<close>

definition pulled_bus :: bus where
  "pulled_bus = sim_bus\<lparr>port_replies := (\<lambda>n. Some ''could not open port''),
                        replies := (\<lambda>n. Raises ''no status packet''),
                        position_cache := [1 \<mapsto> 2048]\<rparr>"

text \<open>The servo of the example configuration in the package's docstring.\<close>

definition gripper :: servo where
  "gripper = \<lparr>name = ''st3215 gripper'', servo_id = 1, position_min = 500, position_max = 3500,
      max_speed = 3400, max_accel = 254, initial_position = Some 2048,
      status_update_interval = 1, temperature_warning = 70, temperature_critical = 85,
      bus = sim_bus, current_position = None, target_position = None, is_moving = False,
      enabled = False, last_status_update = 0, cached_temperature = None,
      cached_current = None, cached_voltage = None, last_error = None\<rparr>"

section \<open>The lock is free between calls, and the retry path never waits for it\<close>

lemmas bus_defs = execute_with_retry_def retry_loop.simps attempt_once_def reconnect_def
  connect_def disconnect_def with_lock_def call_def emit_def Let_def

lemmas scenario_defs = sim_bus_def low_bus_def flaky_bus_def dead_bus_def unplugged_bus_def
  pulled_bus_def gripper_def

lemma str_int_digits:
  "str_int 1 = ''1''" "str_int 2 = ''2''" "str_int 3 = ''3''"
  by (simp_all add: str_int_def str_nat.simps)

lemma emit_simps [simp]:
  "lock_held (emit e b) = lock_held b"
  "position_cache (emit e b) = position_cache b"
  "connected (emit e b) = connected b"
  "st3215 (emit e b) = st3215 b"
  "trace (emit e b) = trace b @ [e]"
  by (simp_all add: emit_def)

lemma connect_free:
  assumes "\<not> lock_held b"
  shows "\<exists>r b'. connect b = Some (r, b') \<and> \<not> lock_held b' \<and> position_cache b' = position_cache b"
  using assms by (simp add: connect_def with_lock_def Let_def split: option.split)

lemma disconnect_free:
  assumes "\<not> lock_held b"
  shows "\<exists>r b'. disconnect b = Some (r, b') \<and> \<not> lock_held b' \<and> position_cache b' = position_cache b"
  using assms by (simp add: disconnect_def with_lock_def Let_def split: option.split)

lemma call_free:
  "\<exists>r b'. call rq b = Some (r, b') \<and> lock_held b' = lock_held b \<and> position_cache b' = position_cache b"
  by (simp add: call_def split: option.split)

lemma attempt_once_free:
  assumes "\<not> lock_held b"
  shows "\<exists>r b'. attempt_once nm (call rq) b = Some (r, b') \<and> \<not> lock_held b'
           \<and> position_cache b' = position_cache b"
proof (cases "connected b")
  case True
  obtain r b' where c: "call rq b = Some (r, b')" "lock_held b' = lock_held b"
      "position_cache b' = position_cache b"
    using call_free by blast
  with True assms show ?thesis
    by (cases r) (simp_all add: attempt_once_def)
next
  case False
  obtain r1 b1 where k: "connect b = Some (r1, b1)" "\<not> lock_held b1"
      "position_cache b1 = position_cache b"
    using connect_free [OF assms] by blast
  obtain r b' where c: "call rq b1 = Some (r, b')" "lock_held b' = lock_held b1"
      "position_cache b' = position_cache b1"
    using call_free by blast
  with False k show ?thesis
    by (cases r1; cases r) (simp_all add: attempt_once_def)
qed

lemma reconnect_free:
  assumes "\<not> lock_held b"
  shows "\<exists>b'. reconnect b = Some b' \<and> \<not> lock_held b' \<and> position_cache b' = position_cache b"
proof -
  obtain r1 b1 where d: "disconnect b = Some (r1, b1)" "\<not> lock_held b1"
      "position_cache b1 = position_cache b"
    using disconnect_free [OF assms] by blast
  have "\<not> lock_held (emit (Sleep 0.5) b1)" using d by simp
  then obtain r2 b2 where k: "connect (emit (Sleep 0.5) b1) = Some (r2, b2)" "\<not> lock_held b2"
      "position_cache b2 = position_cache (emit (Sleep 0.5) b1)"
    using connect_free by blast
  with d show ?thesis
    by (cases r1; cases r2) (simp_all add: reconnect_def)
qed

text \<open>
  Whatever the port and the servo do, the retry loop around a driver call returns;
  it leaves the lock free and the position cache as it was, and the only exception
  it raises is \<open>ST3215BusError\<close>.
\<close>

lemma retry_loop_free:
  assumes "\<not> lock_held b"
  shows "\<exists>r b'. retry_loop nm (call rq) mx a b = Some (r, b') \<and> \<not> lock_held b'
           \<and> position_cache b' = position_cache b
           \<and> (case r of Inl e \<Rightarrow> \<exists>m. e = ST3215BusError m | Inr v \<Rightarrow> True)"
  using assms
proof (induction nm "call rq" mx a b rule: retry_loop.induct)
  case (1 nm mx a b)
  show ?case
  proof (cases "mx \<le> a")
    case True
    with 1 show ?thesis by (simp add: retry_loop.simps)
  next
    case False
    obtain r1 b1 where t: "attempt_once nm (call rq) b = Some (r1, b1)" "\<not> lock_held b1"
        "position_cache b1 = position_cache b"
      using attempt_once_free [OF "1.prems"] by blast
    show ?thesis
    proof (cases r1)
      case (Inr v)
      with False t show ?thesis by (simp add: retry_loop.simps)
    next
      case (Inl e)
      define b2 where "b2 = b1\<lparr>bus_last_error := Some (str_exn e)\<rparr>"
      show ?thesis
      proof (cases "a < mx - 1")
        case last: False
        with False t Inl show ?thesis by (simp add: retry_loop.simps Let_def)
      next
        case more: True
        define w where "w = emit (Log Warning
                              (''ST3215Bus: '' @ nm @ '' failed (attempt ''
                                @ str_int (a + 1) @ ''/'' @ str_int mx @ ''): ''
                                @ str_exn e)) b2"
        have "\<not> lock_held w" using t by (simp add: w_def b2_def)
        then obtain b3 where r: "reconnect w = Some b3" "\<not> lock_held b3"
            "position_cache b3 = position_cache w"
          using reconnect_free by blast
        have ih: "\<exists>r b'. retry_loop nm (call rq) mx (a + 1) b3 = Some (r, b') \<and> \<not> lock_held b'
           \<and> position_cache b' = position_cache b3
           \<and> (case r of Inl e \<Rightarrow> \<exists>m. e = ST3215BusError m | Inr v \<Rightarrow> True)"
          using "1.hyps" [OF False t(1) [unfolded Inl] refl refl refl more
                  r(1) [unfolded w_def b2_def] r(2)] .
        have cache: "position_cache b3 = position_cache b"
          using r t by (simp add: w_def b2_def)
        have unfold: "retry_loop nm (call rq) mx a b = retry_loop nm (call rq) mx (a + 1) b3"
          using False t Inl more r(1)
          by (subst retry_loop.simps) (simp add: w_def b2_def Let_def)
        show ?thesis using ih cache unfold by simp
      qed
    qed
  qed
qed

lemma execute_with_retry_free:
  assumes "\<not> lock_held b"
  shows "\<exists>r b'. execute_with_retry b nm (call rq) mx = Some (r, b') \<and> \<not> lock_held b'
           \<and> position_cache b' = position_cache b
           \<and> (case r of Inl e \<Rightarrow> \<exists>m. e = ST3215BusError m | Inr v \<Rightarrow> True)"
  unfolding execute_with_retry_def using retry_loop_free [OF assms] .

lemma read_position_free:
  assumes "\<not> lock_held b"
  shows "\<exists>v b1. read_position b i = Some (Inr v, b1) \<and> \<not> lock_held b1"
proof -
  obtain r b1 where x: "execute_with_retry b (''ReadPosition(servo='' @ str_int i @ '')'')
                   (call (ReadPosition i)) 3 = Some (r, b1)" "\<not> lock_held b1"
      "case r of Inl e \<Rightarrow> \<exists>m. e = ST3215BusError m | Inr v \<Rightarrow> True"
    using execute_with_retry_free [OF assms] by blast
  show ?thesis
  proof (cases r)
    case (Inl e)
    with x(3) obtain m where "e = ST3215BusError m" by auto
    with x Inl show ?thesis
      by (cases "position_cache b1 i") (simp_all add: read_position_def Let_def)
  next
    case (Inr v)
    with x show ?thesis
      by (cases v) (simp_all add: read_position_def)
  qed
qed

lemma bus_move_to_free:
  assumes "\<not> lock_held b"
  shows "\<exists>m b2. bus_move_to b i p sp ac = Some (m, b2) \<and> \<not> lock_held b2"
proof -
  obtain r b1 where x: "execute_with_retry b
                   (''MoveTo(servo='' @ str_int i @ '', pos='' @ str_int p @ '')'')
                   (call (MoveTo i p sp ac)) 3 = Some (r, b1)" "\<not> lock_held b1"
    using execute_with_retry_free [OF assms] by blast
  then show ?thesis
    by (cases r) (simp_all add: bus_move_to_def)
qed

section \<open>An unplugged adapter\<close>

text \<open>
  With the port gone, every one of the three attempts fails in \<open>connect\<close>, the
  operation itself is never called, and the bus stays disconnected. A method of the
  single-attempt kind then never returns: it takes the lock and, the bus not being
  connected, calls \<open>connect\<close>, which waits for the same lock.
\<close>

lemma execute_with_retry_unplugged:
  assumes "unplugged b e"
  shows "\<exists>b'. execute_with_retry b nm func 3 =
           Some (Inl (ST3215BusError (nm @ '' failed after 3 attempts: Failed to connect to ''
                        @ serial_port b @ '': '' @ e)), b')
         \<and> unplugged b' e \<and> serial_port b' = serial_port b
         \<and> position_cache b' = position_cache b"
  using assms
  by (simp add: unplugged_def bus_defs str_int_digits)

lemma read_position_unplugged:
  assumes "unplugged b e"
  shows "\<exists>b'. read_position b i = Some (Inr (position_cache b i), b')
         \<and> unplugged b' e \<and> serial_port b' = serial_port b
         \<and> position_cache b' = position_cache b"
proof -
  obtain b1 where x: "execute_with_retry b (''ReadPosition(servo='' @ str_int i @ '')'')
             (call (ReadPosition i)) 3 =
           Some (Inl (ST3215BusError ((''ReadPosition(servo='' @ str_int i @ '')'')
                        @ '' failed after 3 attempts: Failed to connect to ''
                        @ serial_port b @ '': '' @ e)), b1)"
     "unplugged b1 e" "serial_port b1 = serial_port b" "position_cache b1 = position_cache b"
    using execute_with_retry_unplugged [OF assms] by blast
  then show ?thesis
    by (cases "position_cache b i") (simp_all add: read_position_def unplugged_def emit_def Let_def)
qed

lemma bus_move_to_unplugged:
  assumes "unplugged b e"
  shows "\<exists>b'. bus_move_to b i p sp ac =
           Some (Inl (ST3215BusError (''MoveTo(servo='' @ str_int i @ '', pos='' @ str_int p @ '')''
                        @ '' failed after 3 attempts: Failed to connect to ''
                        @ serial_port b @ '': '' @ e)), b')
         \<and> unplugged b' e \<and> position_cache b' = position_cache b"
proof -
  obtain b1 where x: "execute_with_retry b (''MoveTo(servo='' @ str_int i @ '', pos='' @ str_int p @ '')'')
             (call (MoveTo i p sp ac)) 3 =
           Some (Inl (ST3215BusError ((''MoveTo(servo='' @ str_int i @ '', pos='' @ str_int p @ '')'')
                        @ '' failed after 3 attempts: Failed to connect to ''
                        @ serial_port b @ '': '' @ e)), b1)"
     "unplugged b1 e" "position_cache b1 = position_cache b"
    using execute_with_retry_unplugged [OF assms] by blast
  then show ?thesis
    by (simp add: bus_move_to_def)
qed

text \<open>
  The same from a bus that is still marked connected: the first attempt fails in the
  driver call, the reconnect cycle closes the port and cannot reopen it, and the two
  remaining attempts fail in \<open>connect\<close>.
\<close>

lemma execute_with_retry_pulled:
  assumes "\<not> lock_held b" "connected b" "st3215 b = Some d"
    and "\<forall>n. port_replies b n = Some e" "replies b (calls b) = Raises m"
  shows "\<exists>b'. execute_with_retry b nm (call rq) 3 =
           Some (Inl (ST3215BusError (nm @ '' failed after 3 attempts: Failed to connect to ''
                        @ serial_port b @ '': '' @ e)), b')
         \<and> unplugged b' e \<and> serial_port b' = serial_port b
         \<and> position_cache b' = position_cache b"
  using assms
  by (simp add: unplugged_def bus_defs str_int_digits)

lemma read_position_pulled:
  assumes "\<not> lock_held b" "connected b" "st3215 b = Some d"
    and "\<forall>n. port_replies b n = Some e" "replies b (calls b) = Raises m"
  shows "\<exists>b'. read_position b i = Some (Inr (position_cache b i), b') \<and> unplugged b' e"
proof -
  obtain b1 where x: "execute_with_retry b (''ReadPosition(servo='' @ str_int i @ '')'')
             (call (ReadPosition i)) 3 =
           Some (Inl (ST3215BusError ((''ReadPosition(servo='' @ str_int i @ '')'')
                        @ '' failed after 3 attempts: Failed to connect to ''
                        @ serial_port b @ '': '' @ e)), b1)"
     "unplugged b1 e" "position_cache b1 = position_cache b"
    using execute_with_retry_pulled [OF assms] by blast
  then show ?thesis
    by (cases "position_cache b i") (simp_all add: read_position_def unplugged_def emit_def Let_def)
qed

lemma read_telemetry_not_connected:
  assumes "\<not> connected b"
  shows "read_telemetry rq what b = None"
  using assms by (simp add: read_telemetry_def with_lock_def connect_def)

lemma unplugged_bus_unplugged: "unplugged unplugged_bus ''could not open port''"
  by (simp add: unplugged_def unplugged_bus_def)

section \<open>The claims about the servo's guards\<close>

text \<open>
  Claim C1. With a known cached temperature \<open>t\<close>: at or above
  \<open>temperature_critical\<close> the guard logs the error, invokes the shutdown of the host
  and raises; from \<open>temperature_warning\<close> up to, and excluding,
  \<open>temperature_critical\<close> it only logs a warning and returns; below
  \<open>temperature_warning\<close> it does nothing.
\<close>

theorem check_temperature_thresholds:
  assumes "temperature_warning s < temperature_critical s" "cached_temperature s = Some t"
  shows "(temperature_critical s \<le> t \<longrightarrow>
            (\<exists>m. check_temperature s =
                   (Inl (Exception m), servo_emit (Shutdown m) (servo_emit (Log Error m) s))))
       \<and> (temperature_warning s \<le> t \<and> t < temperature_critical s \<longrightarrow>
            (\<exists>m. check_temperature s = (Inr (), servo_emit (Log Warning m) s)))
       \<and> (t < temperature_warning s \<longrightarrow> check_temperature s = (Inr (), s))"
  using assms by (auto simp add: check_temperature_def Let_def)

theorem check_temperature_thresholds_witness:
  "temperature_warning gripper < temperature_critical gripper
   \<and> fst (check_temperature (gripper\<lparr>cached_temperature := Some 85\<rparr>)) =
       Inl (Exception (''ST3215 st3215 gripper temperature critical: 85'' @ [CHR 0xB0] @ ''C''))
   \<and> trace (bus (snd (check_temperature (gripper\<lparr>cached_temperature := Some 85\<rparr>)))) =
       [Log Error (''ST3215 st3215 gripper temperature critical: 85'' @ [CHR 0xB0] @ ''C''),
        Shutdown (''ST3215 st3215 gripper temperature critical: 85'' @ [CHR 0xB0] @ ''C'')]
   \<and> fst (check_temperature (gripper\<lparr>cached_temperature := Some 84\<rparr>)) = Inr ()
   \<and> trace (bus (snd (check_temperature (gripper\<lparr>cached_temperature := Some 84\<rparr>)))) =
       [Log Warning (''ST3215 st3215 gripper temperature high: 84'' @ [CHR 0xB0] @ ''C'')]
   \<and> check_temperature (gripper\<lparr>cached_temperature := Some 69\<rparr>) =
       (Inr (), gripper\<lparr>cached_temperature := Some 69\<rparr>)"
proof -
  have w: "temperature_warning gripper < temperature_critical gripper"
    by (simp add: gripper_def)
  have h85: "temperature_warning (gripper\<lparr>cached_temperature := Some 85\<rparr>)
               < temperature_critical (gripper\<lparr>cached_temperature := Some 85\<rparr>)"
    "cached_temperature (gripper\<lparr>cached_temperature := Some 85\<rparr>) = Some 85"
    by (simp_all add: gripper_def)
  have h84: "temperature_warning (gripper\<lparr>cached_temperature := Some 84\<rparr>)
               < temperature_critical (gripper\<lparr>cached_temperature := Some 84\<rparr>)"
    "cached_temperature (gripper\<lparr>cached_temperature := Some 84\<rparr>) = Some 84"
    by (simp_all add: gripper_def)
  have h69: "temperature_warning (gripper\<lparr>cached_temperature := Some 69\<rparr>)
               < temperature_critical (gripper\<lparr>cached_temperature := Some 69\<rparr>)"
    "cached_temperature (gripper\<lparr>cached_temperature := Some 69\<rparr>) = Some 69"
    by (simp_all add: gripper_def)
  have ev: "fst (check_temperature (gripper\<lparr>cached_temperature := Some 85\<rparr>)) =
       Inl (Exception (''ST3215 st3215 gripper temperature critical: 85'' @ [CHR 0xB0] @ ''C''))
   \<and> trace (bus (snd (check_temperature (gripper\<lparr>cached_temperature := Some 85\<rparr>)))) =
       [Log Error (''ST3215 st3215 gripper temperature critical: 85'' @ [CHR 0xB0] @ ''C''),
        Shutdown (''ST3215 st3215 gripper temperature critical: 85'' @ [CHR 0xB0] @ ''C'')]
   \<and> fst (check_temperature (gripper\<lparr>cached_temperature := Some 84\<rparr>)) = Inr ()
   \<and> trace (bus (snd (check_temperature (gripper\<lparr>cached_temperature := Some 84\<rparr>)))) =
       [Log Warning (''ST3215 st3215 gripper temperature high: 84'' @ [CHR 0xB0] @ ''C'')]"
    by (simp add: check_temperature_def servo_emit_def emit_def scenario_defs Let_def
        str_int_def str_nat.simps)
  have "check_temperature (gripper\<lparr>cached_temperature := Some 69\<rparr>) =
       (Inr (), gripper\<lparr>cached_temperature := Some 69\<rparr>)"
    using check_temperature_thresholds [OF h69] by (simp add: gripper_def)
  with w ev check_temperature_thresholds [OF h85] check_temperature_thresholds [OF h84]
  show ?thesis by simp
qed

text \<open>
  Claim C2. A position outside \<open>[position_min, position_max]\<close> makes \<open>move_to\<close>
  raise \<open>ValueError\<close> and leaves the whole state as it was: the tracked fields, the
  bus with its position cache, and the trace of bus calls.
\<close>

theorem move_to_rejects_out_of_range:
  assumes "p < position_min s \<or> position_max s < p"
  shows "\<exists>m. move_to s p speed accel = Some (Inl (ValueError m), s)"
  using assms by (auto simp: move_to_def validate_position_def)

theorem move_to_rejects_out_of_range_witness:
  "(4000 < position_min gripper \<or> position_max gripper < 4000)
   \<and> move_to gripper 4000 None None =
       Some (Inl (ValueError ''Position 4000 above maximum 3500''), gripper)
   \<and> (499 < position_min gripper \<or> position_max gripper < 499)
   \<and> move_to gripper 499 (Some 100) (Some 10) =
       Some (Inl (ValueError ''Position 499 below minimum 500''), gripper)"
proof -
  have h: "4000 < position_min gripper \<or> position_max gripper < 4000"
    and h': "499 < position_min gripper \<or> position_max gripper < 499"
    by (simp_all add: gripper_def)
  have ev: "validate_position gripper 4000 = Inl (ValueError ''Position 4000 above maximum 3500'')"
    "validate_position gripper 499 = Inl (ValueError ''Position 499 below minimum 500'')"
    by (simp_all add: validate_position_def gripper_def str_int_def str_nat.simps)
  from move_to_rejects_out_of_range [OF h, of None None]
    move_to_rejects_out_of_range [OF h', of "Some 100" "Some 10"] h h' ev
  show ?thesis
    by (simp add: move_to_def)
qed

text \<open>
  Claim C10. While no temperature has been read, the guard returns at once, with no
  log entry, no shutdown and no exception, and \<open>move_to\<close> of a position within the
  limits goes on to the bus: what it does is what \<open>bus.move_to\<close> does.
\<close>

theorem check_temperature_absent:
  assumes "cached_temperature s = None" "position_min s \<le> p" "p \<le> position_max s"
  shows "check_temperature s = (Inr (), s) \<and>
     move_to s p speed accel =
       (case bus_move_to (bus s) (servo_id s) p (clamp_speed s speed) (clamp_accel s accel) of
          None \<Rightarrow> None
        | Some (Inl e, b1) \<Rightarrow> Some (Inl e, s\<lparr>bus := b1\<rparr>)
        | Some (Inr u, b1) \<Rightarrow>
            Some (Inr (),
              servo_emit (Log Info (''ST3215Servo: '' @ name s @ '' moving to '' @ str_int p
                  @ '' (speed='' @ str_int (clamp_speed s speed)
                  @ '', accel='' @ str_int (clamp_accel s accel) @ '')''))
                (s\<lparr>bus := b1, target_position := Some p, is_moving := True\<rparr>)))"
  using assms
  by (simp add: check_temperature_def move_to_def validate_position_def clamp_speed_def
      clamp_accel_def Let_def split: option.split sum.split)

theorem check_temperature_absent_witness:
  "cached_temperature gripper = None \<and> position_min gripper \<le> 2048
   \<and> 2048 \<le> position_max gripper
   \<and> check_temperature gripper = (Inr (), gripper)
   \<and> map_option fst (move_to gripper 2048 None None) = Some (Inr ())
   \<and> map_option (trace \<circ> bus \<circ> snd) (move_to gripper 2048 None None) =
       Some [Call (MoveTo 1 2048 3400 254) False,
             Log Info ''ST3215Servo: st3215 gripper moving to 2048 (speed=3400, accel=254)'']"
proof -
  have h: "cached_temperature gripper = None" "position_min gripper \<le> 2048"
    "2048 \<le> position_max gripper"
    by (simp_all add: gripper_def)
  have ev: "bus_move_to (bus gripper) (servo_id gripper) 2048 (clamp_speed gripper None)
              (clamp_accel gripper None) =
            Some (Inr (), sim_bus\<lparr>trace := [Call (MoveTo 1 2048 3400 254) False], calls := 1,
                                  position_cache := [1 \<mapsto> 2048]\<rparr>)"
    by (simp add: bus_move_to_def clamp_speed_def clamp_accel_def bus_defs scenario_defs)
  have nm: "name gripper = ''st3215 gripper''"
    "str_int 2048 = ''2048''" "str_int (clamp_speed gripper None) = ''3400''"
    "str_int (clamp_accel gripper None) = ''254''"
    by (simp_all add: gripper_def clamp_speed_def clamp_accel_def str_int_def str_nat.simps)
  from check_temperature_absent [OF h, of None None] h
  show ?thesis
    by (simp add: ev nm servo_emit_def emit_def)
qed

section \<open>The claims about the retry loop and the position cache\<close>

text \<open>
  Claim C3. On a connected bus whose port works, with \<open>max_retries = 3\<close> and an
  operation whose first two calls raise: the loop makes three attempts with one
  reconnect cycle (disconnect, sleep 0.5 s, connect) after the first and one after
  the second, two in all. When the third call returns, its result is returned; when
  it raises too, \<open>ST3215BusError\<close> is raised with the text of this last exception, and
  nothing follows the third call but the error's log entry.
\<close>

theorem execute_with_retry_three_attempts:
  assumes "\<not> lock_held b" "connected b" "st3215 b = Some d" "\<forall>n. port_replies b n = None"
    and "replies b (calls b) = Raises e1" "replies b (calls b + 1) = Raises e2"
  shows "\<exists>b'. execute_with_retry b nm (call rq) 3 =
            Some (case replies b (calls b + 2) of
                    Returns v \<Rightarrow> Inr v
                  | Raises e3 \<Rightarrow>
                      Inl (ST3215BusError (nm @ '' failed after 3 attempts: '' @ e3)), b')
          \<and> trace b' = trace b @ failed_attempt nm rq 1 e1 @ reconnect_cycle b
                          @ failed_attempt nm rq 2 e2 @ reconnect_cycle b
                          @ [Call rq False,
                             case replies b (calls b + 2) of
                               Returns v \<Rightarrow>
                                 Log Info (''ST3215Bus: '' @ nm @ '' succeeded after reconnect'')
                             | Raises e3 \<Rightarrow>
                                 Log Error (''ST3215Bus: '' @ nm @ '' failed after 3 attempts: ''
                                             @ e3)]
          \<and> length (filter is_sleep (drop (length (trace b)) (trace b'))) = 2"
  using assms
  by (cases "replies b (calls b + 2)")
     (simp_all add: bus_defs str_int_digits failed_attempt_def reconnect_cycle_def)

theorem execute_with_retry_three_attempts_witness:
  "map_option fst (execute_with_retry flaky_bus ''ReadPosition(servo=1)'' (call (ReadPosition 1)) 3)
     = Some (Inr (Some 2048))
   \<and> map_option (length \<circ> filter is_sleep \<circ> trace \<circ> snd)
       (execute_with_retry flaky_bus ''ReadPosition(servo=1)'' (call (ReadPosition 1)) 3) = Some 2
   \<and> map_option fst (execute_with_retry dead_bus ''ReadPosition(servo=1)'' (call (ReadPosition 1)) 3)
     = Some (Inl (ST3215BusError ''ReadPosition(servo=1) failed after 3 attempts: no status packet''))
   \<and> map_option (length \<circ> filter is_sleep \<circ> trace \<circ> snd)
       (execute_with_retry dead_bus ''ReadPosition(servo=1)'' (call (ReadPosition 1)) 3) = Some 2"
proof -
  have f: "\<not> lock_held flaky_bus" "connected flaky_bus"
    "st3215 flaky_bus = Some (ST3215 ''/dev/ttyUSB0'')" "\<forall>n. port_replies flaky_bus n = None"
    "replies flaky_bus (calls flaky_bus) = Raises ''no status packet''"
    "replies flaky_bus (calls flaky_bus + 1) = Raises ''no status packet''"
    by (simp_all add: scenario_defs)
  have d: "\<not> lock_held dead_bus" "connected dead_bus"
    "st3215 dead_bus = Some (ST3215 ''/dev/ttyUSB0'')" "\<forall>n. port_replies dead_bus n = None"
    "replies dead_bus (calls dead_bus) = Raises ''no status packet''"
    "replies dead_bus (calls dead_bus + 1) = Raises ''no status packet''"
    by (simp_all add: scenario_defs)
  have r: "replies flaky_bus (calls flaky_bus + 2) = Returns (Some 2048)"
    "replies dead_bus (calls dead_bus + 2) = Raises ''no status packet''"
    "trace flaky_bus = []" "trace dead_bus = []"
    by (simp_all add: scenario_defs)
  from execute_with_retry_three_attempts [OF f, of "''ReadPosition(servo=1)''" "ReadPosition 1"]
  obtain b' where
    "execute_with_retry flaky_bus ''ReadPosition(servo=1)'' (call (ReadPosition 1)) 3 =
       Some (case replies flaky_bus (calls flaky_bus + 2) of
               Returns v \<Rightarrow> Inr v
             | Raises e3 \<Rightarrow>
                 Inl (ST3215BusError (''ReadPosition(servo=1)'' @ '' failed after 3 attempts: '' @ e3)),
             b')"
    "length (filter is_sleep (drop (length (trace flaky_bus)) (trace b'))) = 2"
    by blast
  then have a: "execute_with_retry flaky_bus ''ReadPosition(servo=1)'' (call (ReadPosition 1)) 3 =
       Some (Inr (Some 2048), b')" "length (filter is_sleep (trace b')) = 2"
    unfolding r by simp_all
  from execute_with_retry_three_attempts [OF d, of "''ReadPosition(servo=1)''" "ReadPosition 1"]
  obtain b'' where
    "execute_with_retry dead_bus ''ReadPosition(servo=1)'' (call (ReadPosition 1)) 3 =
       Some (case replies dead_bus (calls dead_bus + 2) of
               Returns v \<Rightarrow> Inr v
             | Raises e3 \<Rightarrow>
                 Inl (ST3215BusError (''ReadPosition(servo=1)'' @ '' failed after 3 attempts: '' @ e3)),
             b'')"
    "length (filter is_sleep (drop (length (trace dead_bus)) (trace b''))) = 2"
    by blast
  then have b: "execute_with_retry dead_bus ''ReadPosition(servo=1)'' (call (ReadPosition 1)) 3 =
       Some (Inl (ST3215BusError ''ReadPosition(servo=1) failed after 3 attempts: no status packet''),
             b'')" "length (filter is_sleep (trace b'')) = 2"
    unfolding r by simp_all
  from a b show ?thesis by simp
qed

text \<open>
  Claim C4. \<open>read_position\<close> never raises. When the retried read returns a value, the
  value is stored in the position cache and returned. When the retries are exhausted
  and \<open>ST3215BusError\<close> is raised, the result is what the cache holds for this servo:
  the cached value, or \<open>None\<close> when there is no entry; the cache is left as it was.
\<close>

theorem read_position_falls_back_to_cache:
  assumes "\<not> lock_held b"
  shows "\<exists>r b1. execute_with_retry b (''ReadPosition(servo='' @ str_int i @ '')'')
                   (call (ReadPosition i)) 3 = Some (r, b1) \<and>
     (case r of
        Inr None \<Rightarrow> read_position b i = Some (Inr None, b1)
      | Inr (Some p) \<Rightarrow>
          read_position b i =
            Some (Inr (Some p), b1\<lparr>position_cache := (position_cache b)(i \<mapsto> p)\<rparr>)
      | Inl e \<Rightarrow>
          (\<exists>b2. read_position b i = Some (Inr (position_cache b i), b2)
                \<and> position_cache b2 = position_cache b))"
proof -
  obtain r b1 where x: "execute_with_retry b (''ReadPosition(servo='' @ str_int i @ '')'')
                   (call (ReadPosition i)) 3 = Some (r, b1)"
      "position_cache b1 = position_cache b"
      "case r of Inl e \<Rightarrow> \<exists>m. e = ST3215BusError m | Inr v \<Rightarrow> True"
    using execute_with_retry_free [OF assms] by blast
  show ?thesis
  proof (cases r)
    case (Inl e)
    with x(3) obtain m where "e = ST3215BusError m" by auto
    with x Inl show ?thesis
      by (cases "position_cache b i") (simp_all add: read_position_def Let_def)
  next
    case (Inr v)
    with x show ?thesis
      by (cases v) (simp_all add: read_position_def)
  qed
qed

theorem read_position_falls_back_to_cache_witness:
  "\<not> lock_held unplugged_bus \<and> position_cache unplugged_bus 1 = Some 2048
   \<and> map_option fst (read_position unplugged_bus 1) = Some (Inr (Some 2048))
   \<and> map_option fst (read_position unplugged_bus 2) = Some (Inr None)
   \<and> map_option fst (read_position low_bus 1) = Some (Inr (Some 100))
   \<and> map_option (position_cache \<circ> snd) (read_position low_bus 1) = Some [1 \<mapsto> 100]"
proof -
  have h: "\<not> lock_held unplugged_bus" "\<not> lock_held low_bus"
    by (simp_all add: scenario_defs)
  have c: "position_cache unplugged_bus 1 = Some 2048" "position_cache unplugged_bus 2 = None"
    "position_cache low_bus = Map.empty"
    by (simp_all add: scenario_defs)
  have s: "str_int 1 = ''1''" "str_int 2 = ''2''"
    by (simp_all add: str_int_digits)
  have e1: "map_option fst (execute_with_retry unplugged_bus ''ReadPosition(servo=1)''
              (call (ReadPosition 1)) 3)
            = Some (Inl (ST3215BusError (''ReadPosition(servo=1) failed after 3 attempts: ''
                 @ ''Failed to connect to /dev/ttyUSB0: could not open port'')))"
    by (simp add: bus_defs unplugged_bus_def str_int_digits)
  have e2: "map_option fst (execute_with_retry unplugged_bus ''ReadPosition(servo=2)''
              (call (ReadPosition 2)) 3)
            = Some (Inl (ST3215BusError (''ReadPosition(servo=2) failed after 3 attempts: ''
                 @ ''Failed to connect to /dev/ttyUSB0: could not open port'')))"
    by (simp add: bus_defs unplugged_bus_def str_int_digits)
  have e3: "map_option fst (execute_with_retry low_bus ''ReadPosition(servo=1)''
              (call (ReadPosition 1)) 3) = Some (Inr (Some 100))"
    by (simp add: bus_defs scenario_defs)
  from read_position_falls_back_to_cache [OF h(1), of 1]
    read_position_falls_back_to_cache [OF h(1), of 2]
    read_position_falls_back_to_cache [OF h(2), of 1] e1 e2 e3 h c
  show ?thesis
    by (auto simp add: s)
qed

section \<open>The claims about moving and stopping\<close>







text \<open>
  \<open>stop\<close> when the move it issues fails. The adapter is unplugged and 2048 is cached
  for the gripper, which is on its way to 1000. The position read falls back to the
  cached 2048; the move to 2048 then exhausts its retries, \<open>stop\<close> raises
  \<open>ST3215BusError\<close>, and the target stays 1000 with \<open>is_moving\<close> still set.
\<close>

theorem stop_raises_when_move_fails:
  "map_option fst (read_position unplugged_bus 1) = Some (Inr (Some 2048))
   \<and> map_option (map_prod id tracked)
        (stop (gripper\<lparr>bus := unplugged_bus, target_position := Some 1000, is_moving := True\<rparr>))
       = Some (Inl (ST3215BusError
           (''MoveTo(servo=1, pos=2048) failed after 3 attempts: ''
             @ ''Failed to connect to /dev/ttyUSB0: could not open port'')),
           (Some 2048, Some 1000, True, False))"
proof -
  obtain b1 where rd: "read_position unplugged_bus 1 = Some (Inr (position_cache unplugged_bus 1), b1)"
      "unplugged b1 ''could not open port''" "serial_port b1 = serial_port unplugged_bus"
    using read_position_unplugged [OF unplugged_bus_unplugged] by blast
  obtain b2 where mv: "bus_move_to b1 1 2048 0 0 =
           Some (Inl (ST3215BusError (''MoveTo(servo='' @ str_int 1 @ '', pos='' @ str_int 2048 @ '')''
                        @ '' failed after 3 attempts: Failed to connect to ''
                        @ serial_port b1 @ '': '' @ ''could not open port'')), b2)"
    using bus_move_to_unplugged [OF rd(2)] by blast
  have c: "position_cache unplugged_bus 1 = Some 2048" "serial_port unplugged_bus = ''/dev/ttyUSB0''"
    by (simp_all add: unplugged_bus_def)
  have s: "str_int 1 = ''1''" "str_int 2048 = ''2048''"
    by (simp_all add: str_int_def str_nat.simps)
  from rd mv show ?thesis
    by (simp add: stop_def gripper_def tracked_def c s)
qed

text \<open>
  Claim C6, amended. \<open>stop\<close> returns. When the position read gives \<open>pos\<close>, it sets
  \<open>current_position\<close> to \<open>pos\<close> and issues a move to \<open>pos\<close> with speed 0 and
  acceleration 0; when that move succeeds it sets \<open>target_position\<close> to \<open>pos\<close> and
  clears \<open>is_moving\<close>, when it raises the exception propagates and the target and
  \<open>is_moving\<close> stay as they were. When the read gives \<open>None\<close>, nothing happens beyond
  the read: no move is issued and the tracked state is unchanged.
\<close>

theorem stop_after_read:
  assumes "\<not> lock_held (bus s)"
  shows "\<exists>r b1. read_position (bus s) (servo_id s) = Some (Inr r, b1) \<and>
     (case r of
        None \<Rightarrow> stop s = Some (Inr (), s\<lparr>bus := b1\<rparr>)
      | Some pos \<Rightarrow>
          (\<exists>m b2. bus_move_to b1 (servo_id s) pos 0 0 = Some (m, b2) \<and>
             (case m of
                Inr u \<Rightarrow>
                  stop s = Some (Inr (),
                    s\<lparr>bus := emit (Log Info (''ST3215Servo: '' @ name s @ '' stopped at position ''
                                             @ str_int pos)) b2,
                      current_position := Some pos, target_position := Some pos,
                      is_moving := False\<rparr>)
              | Inl e \<Rightarrow> stop s = Some (Inl e, s\<lparr>bus := b2, current_position := Some pos\<rparr>))))"
proof -
  obtain r b1 where rd: "read_position (bus s) (servo_id s) = Some (Inr r, b1)" "\<not> lock_held b1"
    using read_position_free [OF assms] by blast
  show ?thesis
  proof (cases r)
    case None
    with rd show ?thesis by (simp add: stop_def)
  next
    case (Some pos)
    obtain m b2 where mv: "bus_move_to b1 (servo_id s) pos 0 0 = Some (m, b2)"
      using bus_move_to_free [OF rd(2)] by blast
    with rd Some show ?thesis
      by (cases m) (simp_all add: stop_def Let_def servo_emit_def)
  qed
qed

theorem stop_after_read_witness:
  "\<not> lock_held (bus gripper)
   \<and> map_option fst (stop (gripper\<lparr>target_position := Some 1000, is_moving := True\<rparr>))
       = Some (Inr ())
   \<and> map_option (current_position \<circ> snd)
        (stop (gripper\<lparr>target_position := Some 1000, is_moving := True\<rparr>)) = Some (Some 2048)
   \<and> map_option (target_position \<circ> snd)
        (stop (gripper\<lparr>target_position := Some 1000, is_moving := True\<rparr>)) = Some (Some 2048)
   \<and> map_option (is_moving \<circ> snd)
        (stop (gripper\<lparr>target_position := Some 1000, is_moving := True\<rparr>)) = Some False
   \<and> map_option (trace \<circ> bus \<circ> snd)
        (stop (gripper\<lparr>target_position := Some 1000, is_moving := True\<rparr>))
       = Some [Call (ReadPosition 1) False, Call (MoveTo 1 2048 0 0) False,
               Log Info ''ST3215Servo: st3215 gripper stopped at position 2048'']"
proof -
  define g where "g = gripper\<lparr>target_position := Some 1000, is_moving := True\<rparr>"
  have h: "\<not> lock_held (bus g)" "\<not> lock_held (bus gripper)"
    by (simp_all add: g_def scenario_defs)
  have rd: "read_position (bus g) (servo_id g) =
      Some (Inr (Some 2048), sim_bus\<lparr>trace := [Call (ReadPosition 1) False], calls := 1,
                                      position_cache := [1 \<mapsto> 2048]\<rparr>)"
    by (simp add: g_def read_position_def bus_defs scenario_defs)
  have mv: "bus_move_to (sim_bus\<lparr>trace := [Call (ReadPosition 1) False], calls := 1,
                                      position_cache := [1 \<mapsto> 2048]\<rparr>) (servo_id g) 2048 0 0 =
      Some (Inr (), sim_bus\<lparr>trace := [Call (ReadPosition 1) False, Call (MoveTo 1 2048 0 0) False],
                               calls := 2, position_cache := [1 \<mapsto> 2048]\<rparr>)"
    by (simp add: g_def bus_move_to_def bus_defs scenario_defs)
  have nm: "name g = ''st3215 gripper''" "str_int 2048 = ''2048''"
    by (simp_all add: g_def gripper_def str_int_def str_nat.simps)
  from stop_after_read [OF h(1)] rd mv h(2) show ?thesis
    unfolding g_def [symmetric]
    by (auto simp add: nm)
qed

text \<open>
  What the servo reports is stored unvalidated. The gripper's limits are 500 and
  3500 and the servo rests at 100: after \<open>stop\<close>, and after the connect phase, both
  tracked positions are 100, below \<open>position_min\<close>; after a poll tick (at time 1,
  before the telemetry is due) the current position is 100.
\<close>

theorem readings_stored_outside_limits:
  "within_limits gripper (current_position gripper)
   \<and> within_limits gripper (target_position gripper)
   \<and> \<not> within_limits gripper (Some 100)
   \<and> map_option fst (stop (gripper\<lparr>bus := low_bus\<rparr>)) = Some (Inr ())
   \<and> map_option (current_position \<circ> snd) (stop (gripper\<lparr>bus := low_bus\<rparr>)) = Some (Some 100)
   \<and> map_option (target_position \<circ> snd) (stop (gripper\<lparr>bus := low_bus\<rparr>)) = Some (Some 100)
   \<and> map_option (position_min \<circ> snd) (stop (gripper\<lparr>bus := low_bus\<rparr>)) = Some 500
   \<and> map_option fst (handle_connect (gripper\<lparr>bus := low_bus\<rparr>)) = Some (Inr ())
   \<and> map_option (current_position \<circ> snd) (handle_connect (gripper\<lparr>bus := low_bus\<rparr>))
       = Some (Some 100)
   \<and> map_option (target_position \<circ> snd) (handle_connect (gripper\<lparr>bus := low_bus\<rparr>))
       = Some (Some 100)
   \<and> map_option (current_position \<circ> snd) (update_status_timer (gripper\<lparr>bus := low_bus\<rparr>) 1)
       = Some (Some 100)"
  by (simp add: stop_def handle_connect_def handle_connect_body_def update_status_timer_def
      status_body_def ping_servo_def falsy_def read_position_def bus_move_to_def servo_emit_def
      within_limits_def bus_defs scenario_defs)

lemma check_temperature_keeps:
  assumes "check_temperature s = (r, s')"
  shows "position_min s' = position_min s \<and> position_max s' = position_max s
     \<and> current_position s' = current_position s \<and> target_position s' = target_position s"
proof (cases "cached_temperature s")
  case None
  with assms show ?thesis by (simp add: check_temperature_def)
next
  case (Some t)
  consider "temperature_critical s \<le> t"
    | "\<not> temperature_critical s \<le> t" "temperature_warning s \<le> t"
    | "\<not> temperature_critical s \<le> t" "\<not> temperature_warning s \<le> t"
    by blast
  then show ?thesis
    using assms Some
    by cases (auto simp add: check_temperature_def servo_emit_def Let_def)
qed

lemma move_to_keeps:
  assumes "move_to s p speed accel = Some (r, s')"
  shows "position_min s' = position_min s \<and> position_max s' = position_max s
     \<and> current_position s' = current_position s
     \<and> (target_position s' = target_position s
          \<or> target_position s' = Some p \<and> position_min s \<le> p \<and> p \<le> position_max s)"
proof (cases "validate_position s p")
  case (Inl e)
  with assms show ?thesis by (simp add: move_to_def)
next
  case (Inr q)
  then have q: "q = p" "position_min s \<le> p" "p \<le> position_max s"
    by (auto simp: validate_position_def split: if_splits)
  obtain r1 s1 where c: "check_temperature s = (r1, s1)" by (cases "check_temperature s")
  note k = check_temperature_keeps [OF c]
  show ?thesis
  proof (cases r1)
    case (Inl e)
    with assms Inr c k show ?thesis by (simp add: move_to_def)
  next
    case r1: (Inr u)
    define sp where "sp = max 0 (min 3400 (case speed of None \<Rightarrow> max_speed s1 | Some v \<Rightarrow> v))"
    define ac where "ac = max 0 (min 254 (case accel of None \<Rightarrow> max_accel s1 | Some v \<Rightarrow> v))"
    have mv: "move_to s p speed accel =
        (case bus_move_to (bus s1) (servo_id s1) p sp ac of
                     None \<Rightarrow> None
                   | Some (Inl e, b1) \<Rightarrow> Some (Inl e, s1\<lparr>bus := b1\<rparr>)
                   | Some (Inr u', b1) \<Rightarrow>
                       Some (Inr (),
                         servo_emit (Log Info (''ST3215Servo: '' @ name s1 @ '' moving to ''
                                      @ str_int p @ '' (speed='' @ str_int sp
                                      @ '', accel='' @ str_int ac @ '')''))
                           (s1\<lparr>bus := b1, target_position := Some p,
                               is_moving := True\<rparr>)))"
      unfolding sp_def ac_def using Inr q(1) c r1 by (simp add: move_to_def Let_def)
    show ?thesis
    proof (cases "bus_move_to (bus s1) (servo_id s1) p sp ac")
      case None
      with assms mv show ?thesis by simp
    next
      case (Some x)
      obtain m b1 where x: "x = (m, b1)" by (cases x)
      show ?thesis
        using assms mv Some x k q
        by (cases m) (auto simp add: servo_emit_def)
    qed
  qed
qed

text \<open>
  The operations that take a commanded position validate it before they change
  anything.
\<close>

lemma validated_positions_kept:
  assumes "within_limits s (current_position s)" "within_limits s (target_position s)"
  shows "(case move_to s p speed accel of
            None \<Rightarrow> True
          | Some (r, s') \<Rightarrow>
              within_limits s' (current_position s') \<and> within_limits s' (target_position s'))
       \<and> (case set_position s p of
            (r, s') \<Rightarrow>
              within_limits s' (current_position s') \<and> within_limits s' (target_position s'))"
proof
  show "case set_position s p of
            (r, s') \<Rightarrow>
              within_limits s' (current_position s') \<and> within_limits s' (target_position s')"
    using assms
    by (auto simp: set_position_def validate_position_def within_limits_def servo_emit_def)
next
  show "case move_to s p speed accel of
            None \<Rightarrow> True
          | Some (r, s') \<Rightarrow>
              within_limits s' (current_position s') \<and> within_limits s' (target_position s')"
  proof (cases "move_to s p speed accel")
    case None
    then show ?thesis by simp
  next
    case (Some x)
    obtain r s' where x: "x = (r, s')" by (cases x)
    from move_to_keeps [OF Some [unfolded x]] assms Some x show ?thesis
      by (auto simp: within_limits_def split: option.splits)
  qed
qed

text \<open>
  The operations that take a position from the bus store it as it comes. \<open>stop\<close>
  stores it as the current position before its move and as the target after it;
  the poll tick stores it as the current position, whichever way its test of the
  telemetry period goes; the connect phase stores it as both.
\<close>

lemma stop_stores_reading:
  assumes "read_position (bus s) (servo_id s) = Some (Inr (Some pos), b1)"
  shows "case stop s of
           None \<Rightarrow> True
         | Some (r, s') \<Rightarrow>
             current_position s' = Some pos
             \<and> (case r of Inr u \<Rightarrow> target_position s' = Some pos
                 | Inl e \<Rightarrow> target_position s' = target_position s)"
proof (cases "bus_move_to b1 (servo_id s) pos 0 0")
  case None
  with assms show ?thesis by (simp add: stop_def)
next
  case (Some x)
  obtain m b2 where x: "x = (m, b2)" by (cases x)
  with assms Some show ?thesis
    by (cases m) (simp_all add: stop_def servo_emit_def)
qed

lemma update_status_timer_stores_reading:
  assumes "read_position (bus s) (servo_id s) = Some (Inr (Some pos), b1)"
  shows "case update_status_timer s eventtime of
           None \<Rightarrow> True
         | Some (w, s') \<Rightarrow> current_position s' = Some pos \<and> target_position s' = target_position s"
proof -
  define s1 where "s1 = (case target_position s of
                            None \<Rightarrow> s\<lparr>bus := b1, current_position := Some pos\<rparr>
                          | Some t \<Rightarrow> s\<lparr>bus := b1, current_position := Some pos,
                                        is_moving := (\<bar>pos - t\<bar> > 5)\<rparr>)"
  have s1: "current_position s1 = Some pos" "target_position s1 = target_position s"
    by (simp_all add: s1_def split: option.split)
  have body: "status_body s eventtime =
      (if eventtime - last_status_update s1 > 5.0
              then
                (case read_status (bus s1) (servo_id s1) of
                   None \<Rightarrow> None
                 | Some (st, b2) \<Rightarrow>
                     (let s2 = s1\<lparr>bus := b2, cached_temperature := temperature st,
                                  cached_current := current st, cached_voltage := voltage st\<rparr>;
                          s3 = snd (check_temperature s2)
                      in Some (Inr (), s3\<lparr>last_status_update := eventtime, last_error := None\<rparr>)))
              else Some (Inr (), s1\<lparr>last_error := None\<rparr>))"
    using assms unfolding s1_def by (simp add: status_body_def Let_def)
  show ?thesis
  proof (cases "eventtime - last_status_update s1 > 5.0")
    case False
    with body s1 show ?thesis by (simp add: update_status_timer_def)
  next
    case True
    show ?thesis
    proof (cases "read_status (bus s1) (servo_id s1)")
      case None
      with body True show ?thesis by (simp add: update_status_timer_def)
    next
      case (Some x)
      obtain st b2 where x: "x = (st, b2)" by (cases x)
      define s2 where "s2 = s1\<lparr>bus := b2, cached_temperature := temperature st,
                                  cached_current := current st, cached_voltage := voltage st\<rparr>"
      have "check_temperature s2 = (fst (check_temperature s2), snd (check_temperature s2))"
        by simp
      from check_temperature_keeps [OF this]
      have k: "current_position (snd (check_temperature s2)) = Some pos"
        "target_position (snd (check_temperature s2)) = target_position s"
        using s1 by (simp_all add: s2_def)
      have "status_body s eventtime =
              Some (Inr (), (snd (check_temperature s2))\<lparr>last_status_update := eventtime,
                                                         last_error := None\<rparr>)"
        using body True Some x by (simp add: s2_def Let_def)
      with k show ?thesis by (simp add: update_status_timer_def)
    qed
  qed
qed

lemma handle_connect_stores_reading:
  assumes "connect (bus s) = Some (Inr u, b1)" "ping_servo b1 (servo_id s) = Some (v, b2)"
    and "\<not> falsy v"
    and "read_position (emit (Log Info (''ST3215Servo: '' @ name s @ '' detected on bus'')) b2)
           (servo_id s) = Some (Inr (Some pos), b3)"
  shows "\<exists>s'. handle_connect s = Some (Inr (), s')
           \<and> current_position s' = Some pos \<and> target_position s' = Some pos"
  using assms
  by (simp add: handle_connect_def handle_connect_body_def servo_emit_def Let_def)

text \<open>
  Claim C7, amended. \<open>move_to\<close> and \<open>set_position\<close> validate the commanded position
  before they change anything: when the tracked positions are within the limits
  before, they are within the limits after. \<open>stop\<close>, the connect phase and the poll
  tick do not validate: whatever position the bus read returns is what they store,
  \<open>stop\<close> and the connect phase as current position and target, the poll tick as
  current position.
\<close>

theorem commanded_positions_within_limits:
  "(within_limits s (current_position s) \<and> within_limits s (target_position s) \<longrightarrow>
      (case move_to s p speed accel of
         None \<Rightarrow> True
       | Some (r, s') \<Rightarrow>
           within_limits s' (current_position s') \<and> within_limits s' (target_position s'))
      \<and> (case set_position s p of
            (r, s') \<Rightarrow>
              within_limits s' (current_position s') \<and> within_limits s' (target_position s')))
   \<and> (read_position (bus s) (servo_id s) = Some (Inr (Some pos), b1) \<longrightarrow>
        (case stop s of
           None \<Rightarrow> True
         | Some (r, s') \<Rightarrow>
             current_position s' = Some pos
             \<and> (case r of Inr u \<Rightarrow> target_position s' = Some pos
                 | Inl e \<Rightarrow> target_position s' = target_position s))
        \<and> (case update_status_timer s eventtime of
              None \<Rightarrow> True
            | Some (w, s') \<Rightarrow>
                current_position s' = Some pos \<and> target_position s' = target_position s))
   \<and> (connect (bus s) = Some (Inr u, b2) \<and> ping_servo b2 (servo_id s) = Some (v, b3)
        \<and> \<not> falsy v
        \<and> read_position (emit (Log Info (''ST3215Servo: '' @ name s @ '' detected on bus'')) b3)
             (servo_id s) = Some (Inr (Some pos'), b4) \<longrightarrow>
        (\<exists>s'. handle_connect s = Some (Inr (), s')
              \<and> current_position s' = Some pos' \<and> target_position s' = Some pos'))"
proof -
  have validated:
    "within_limits s (current_position s) \<and> within_limits s (target_position s) \<longrightarrow>
      (case move_to s p speed accel of
         None \<Rightarrow> True
       | Some (r, s') \<Rightarrow>
           within_limits s' (current_position s') \<and> within_limits s' (target_position s'))
      \<and> (case set_position s p of
            (r, s') \<Rightarrow>
              within_limits s' (current_position s') \<and> within_limits s' (target_position s'))"
    using validated_positions_kept [of s p speed accel] by simp
  have stored:
    "read_position (bus s) (servo_id s) = Some (Inr (Some pos), b1) \<longrightarrow>
        (case stop s of
           None \<Rightarrow> True
         | Some (r, s') \<Rightarrow>
             current_position s' = Some pos
             \<and> (case r of Inr u \<Rightarrow> target_position s' = Some pos
                 | Inl e \<Rightarrow> target_position s' = target_position s))
        \<and> (case update_status_timer s eventtime of
              None \<Rightarrow> True
            | Some (w, s') \<Rightarrow>
                current_position s' = Some pos \<and> target_position s' = target_position s)"
    using stop_stores_reading [of s pos b1]
      update_status_timer_stores_reading [of s pos b1 eventtime]
    by simp
  have connected:
    "connect (bus s) = Some (Inr u, b2) \<and> ping_servo b2 (servo_id s) = Some (v, b3)
        \<and> \<not> falsy v
        \<and> read_position (emit (Log Info (''ST3215Servo: '' @ name s @ '' detected on bus'')) b3)
             (servo_id s) = Some (Inr (Some pos'), b4) \<longrightarrow>
        (\<exists>s'. handle_connect s = Some (Inr (), s')
              \<and> current_position s' = Some pos' \<and> target_position s' = Some pos')"
    using handle_connect_stores_reading [of s u b2 v b3 pos' b4] by blast
  show ?thesis
    by (intro conjI) (fact validated, fact stored, fact connected)
qed

theorem commanded_positions_within_limits_witness:
  "within_limits (gripper\<lparr>current_position := Some 2000, target_position := Some 2100\<rparr>) (Some 2000)
   \<and> within_limits (gripper\<lparr>current_position := Some 2000, target_position := Some 2100\<rparr>)
        (Some 2100)
   \<and> map_option (tracked \<circ> snd)
        (move_to (gripper\<lparr>current_position := Some 2000, target_position := Some 2100\<rparr>)
           3500 None None) = Some (Some 2000, Some 3500, True, False)
   \<and> map_option (tracked \<circ> snd)
        (move_to (gripper\<lparr>current_position := Some 2000, target_position := Some 2100\<rparr>)
           3501 None None) = Some (Some 2000, Some 2100, False, False)
   \<and> tracked (snd (set_position (gripper\<lparr>current_position := Some 2000,
                                           target_position := Some 2100\<rparr>) 500))
       = (Some 500, Some 500, False, False)
   \<and> tracked (snd (set_position (gripper\<lparr>current_position := Some 2000,
                                           target_position := Some 2100\<rparr>) 499))
       = (Some 2000, Some 2100, False, False)
   \<and> map_option fst (read_position low_bus 1) = Some (Inr (Some 100))
   \<and> map_option (current_position \<circ> snd) (stop (gripper\<lparr>bus := low_bus\<rparr>)) = Some (Some 100)
   \<and> map_option (current_position \<circ> snd) (update_status_timer (gripper\<lparr>bus := low_bus\<rparr>) 1)
       = Some (Some 100)
   \<and> map_option (current_position \<circ> snd) (handle_connect (gripper\<lparr>bus := low_bus\<rparr>))
       = Some (Some 100)"
proof -
  define g where "g = gripper\<lparr>current_position := Some 2000, target_position := Some 2100\<rparr>"
  define l where "l = gripper\<lparr>bus := low_bus\<rparr>"
  have h: "within_limits g (current_position g) \<and> within_limits g (target_position g)"
    and h': "within_limits g (Some 2000)" "within_limits g (Some 2100)"
    by (simp_all add: g_def within_limits_def gripper_def)
  have ev: "map_option (tracked \<circ> snd) (move_to g 3500 None None)
              = Some (Some 2000, Some 3500, True, False)"
    "map_option (tracked \<circ> snd) (move_to g 3501 None None)
              = Some (Some 2000, Some 2100, False, False)"
    by (simp_all add: g_def move_to_def validate_position_def check_temperature_def
        bus_move_to_def servo_emit_def tracked_def bus_defs scenario_defs)
  have ev': "tracked (snd (set_position g 500)) = (Some 500, Some 500, False, False)"
    "tracked (snd (set_position g 499)) = (Some 2000, Some 2100, False, False)"
    by (simp_all add: g_def set_position_def validate_position_def servo_emit_def tracked_def
        gripper_def)
  have "\<exists>b1. read_position (bus l) (servo_id l) = Some (Inr (Some 100), b1)"
    by (simp add: l_def read_position_def bus_defs scenario_defs)
  then obtain b1 where rd: "read_position (bus l) (servo_id l) = Some (Inr (Some 100), b1)"
    by blast
  have rd': "map_option fst (read_position low_bus 1) = Some (Inr (Some 100))"
    using rd by (simp add: l_def gripper_def)
  have st: "stop l \<noteq> None" "update_status_timer l 1 \<noteq> None"
    by (simp_all add: l_def stop_def update_status_timer_def status_body_def read_position_def
        bus_move_to_def bus_defs scenario_defs)
  have cn: "connect (bus l) = Some (Inr (), low_bus)" "\<not> falsy (Some 100)"
    by (simp_all add: l_def falsy_def bus_defs scenario_defs)
  have "\<exists>b3 b4. ping_servo low_bus (servo_id l) = Some (Some 100, b3)
          \<and> read_position (emit (Log Info (''ST3215Servo: '' @ name l @ '' detected on bus'')) b3)
               (servo_id l) = Some (Inr (Some 100), b4)"
    by (simp add: l_def ping_servo_def read_position_def bus_defs scenario_defs)
  then obtain b3 b4 where pg: "ping_servo low_bus (servo_id l) = Some (Some 100, b3)"
    and rd2: "read_position (emit (Log Info (''ST3215Servo: '' @ name l @ '' detected on bus'')) b3)
               (servo_id l) = Some (Inr (Some 100), b4)"
    by blast
  note t1 = commanded_positions_within_limits [where s = g and p = 500 and speed = None
      and accel = None, THEN conjunct1, THEN mp, OF h]
  note t2 = commanded_positions_within_limits [where s = l and pos = 100 and eventtime = 1
      and ?b1.0 = b1, THEN conjunct2, THEN conjunct1, THEN mp, OF rd]
  note t3 = commanded_positions_within_limits [where s = l and u = "()" and ?b2.0 = low_bus
      and v = "Some 100" and ?b3.0 = b3 and pos' = 100 and ?b4.0 = b4,
      THEN conjunct2, THEN conjunct2, THEN mp, OF conjI [OF cn(1) conjI [OF pg conjI [OF cn(2) rd2]]]]
  have c1: "map_option (current_position \<circ> snd) (stop l) = Some (Some 100)"
    using t2 [THEN conjunct1] st(1) by (cases "stop l") auto
  have c2: "map_option (current_position \<circ> snd) (update_status_timer l 1) = Some (Some 100)"
    using t2 [THEN conjunct2] st(2) by (cases "update_status_timer l 1") auto
  have c3: "map_option (current_position \<circ> snd) (handle_connect l) = Some (Some 100)"
    using t3 by auto
  from t1 h' ev ev' rd' c1 c2 c3 show ?thesis
    unfolding g_def [symmetric] l_def [symmetric] by simp
qed

section \<open>The claims about the poll tick and the lock\<close>

text \<open>
  What a tick does when the telemetry is not due: it stores the position read and
  sets \<open>is_moving\<close> by the dead band of 5 around the target, clears \<open>last_error\<close>
  and asks to be woken one interval later.
\<close>

lemma update_status_timer_position_only:
  assumes "read_position (bus s) (servo_id s) = Some (Inr (Some p), b1)"
    and "target_position s = Some t" "\<not> eventtime - last_status_update s > 5"
  shows "update_status_timer s eventtime =
           Some (eventtime + status_update_interval s,
                 s\<lparr>bus := b1, current_position := Some p, is_moving := (\<bar>p - t\<bar> > 5),
                   last_error := None\<rparr>)"
  using assms by (simp add: update_status_timer_def status_body_def)

lemma check_temperature_interval:
  "status_update_interval (snd (check_temperature s)) = status_update_interval s"
  by (cases "cached_temperature s")
     (simp_all add: check_temperature_def servo_emit_def Let_def)

text \<open>
  When the body of the tick returns, the tick returns \<open>eventtime\<close> plus the interval;
  \<open>last_error\<close> is cleared when the body succeeded and holds the text of the exception
  when it raised.
\<close>

lemma update_status_timer_returns:
  assumes "status_body s eventtime = Some (r, s1)"
  shows "\<exists>s2. update_status_timer s eventtime = Some (eventtime + status_update_interval s, s2)
           \<and> last_error s2 = (case r of Inr u \<Rightarrow> None | Inl e \<Rightarrow> Some (str_exn e))"
proof -
  have i: "status_update_interval s1 = status_update_interval s"
    and l: "(case r of Inr u \<Rightarrow> last_error s1 = None | Inl e \<Rightarrow> True)"
    using assms
    by (auto simp add: status_body_def Let_def check_temperature_interval
        split: option.splits sum.splits if_splits prod.splits)
  show ?thesis
    using assms i l by (cases r) (simp_all add: update_status_timer_def servo_emit_def)
qed

text \<open>
  But the body need not return. When the adapter is pulled and the telemetry is due,
  the position read comes back (from the cache, after its retries) with the bus
  disconnected, and \<open>read_temperature\<close> then waits for ever.
\<close>

lemma update_status_timer_pulled:
  assumes "\<not> lock_held (bus s)" "connected (bus s)" "st3215 (bus s) = Some d"
    and "\<forall>n. port_replies (bus s) n = Some e" "replies (bus s) (calls (bus s)) = Raises m"
    and "eventtime - last_status_update s > 5"
  shows "update_status_timer s eventtime = None"
proof -
  obtain b1 where rd: "read_position (bus s) (servo_id s)
        = Some (Inr (position_cache (bus s) (servo_id s)), b1)" "unplugged b1 e"
    using read_position_pulled [OF assms(1-5)] by blast
  have t: "read_temperature b1 (servo_id s) = None"
    using rd(2) by (simp add: read_temperature_def read_telemetry_not_connected unplugged_def)
  from rd(1) t assms(6) show ?thesis
    by (cases "position_cache (bus s) (servo_id s)"; cases "target_position s")
       (simp_all add: update_status_timer_def status_body_def read_status_def)
qed

text \<open>
  Claim C8 at a failing input: the gripper's adapter has just been pulled, 2048 is
  cached, the last telemetry is from time 0 and the tick runs at time 10. The
  position read falls back to 2048, and the tick never returns: no wake time, no
  \<open>last_error\<close>.
\<close>

theorem update_status_timer_never_returns:
  "map_option fst (read_position pulled_bus 1) = Some (Inr (Some 2048))
   \<and> update_status_timer (gripper\<lparr>bus := pulled_bus\<rparr>) 10 = None"
proof -
  have h: "\<not> lock_held pulled_bus" "connected pulled_bus"
    "st3215 pulled_bus = Some (ST3215 ''/dev/ttyUSB0'')"
    "\<forall>n. port_replies pulled_bus n = Some ''could not open port''"
    "replies pulled_bus (calls pulled_bus) = Raises ''no status packet''"
    by (simp_all add: scenario_defs)
  obtain b1 where rd: "read_position pulled_bus 1 = Some (Inr (position_cache pulled_bus 1), b1)"
    using read_position_pulled [OF h] by blast
  have c: "position_cache pulled_bus 1 = Some 2048"
    by (simp add: scenario_defs)
  have g: "\<not> lock_held (bus (gripper\<lparr>bus := pulled_bus\<rparr>))"
    "connected (bus (gripper\<lparr>bus := pulled_bus\<rparr>))"
    "st3215 (bus (gripper\<lparr>bus := pulled_bus\<rparr>)) = Some (ST3215 ''/dev/ttyUSB0'')"
    "\<forall>n. port_replies (bus (gripper\<lparr>bus := pulled_bus\<rparr>)) n = Some ''could not open port''"
    "replies (bus (gripper\<lparr>bus := pulled_bus\<rparr>)) (calls (bus (gripper\<lparr>bus := pulled_bus\<rparr>)))
       = Raises ''no status packet''"
    "10 - last_status_update (gripper\<lparr>bus := pulled_bus\<rparr>) > 5"
    using h by (simp_all add: gripper_def)
  from update_status_timer_pulled [OF g] rd c
  show ?thesis
    by simp
qed

text \<open>
  Claim C9 at a failing input: a move on the connected bus. The driver's \<open>MoveTo\<close> is
  called with the lock not held (the flag of the event) and the position cache is
  written: the methods that go through \<open>_execute_with_retry\<close> never take the lock.
  Even while the lock is held elsewhere the move drives the port, where a
  single-attempt read waits.
\<close>

theorem bus_move_to_without_lock:
  "\<not> lock_held sim_bus
   \<and> map_option fst (bus_move_to sim_bus 1 2048 3400 254) = Some (Inr ())
   \<and> map_option (trace \<circ> snd) (bus_move_to sim_bus 1 2048 3400 254)
       = Some [Call (MoveTo 1 2048 3400 254) False]
   \<and> map_option (position_cache \<circ> snd) (bus_move_to sim_bus 1 2048 3400 254)
       = Some [1 \<mapsto> 2048]
   \<and> map_option (trace \<circ> snd) (bus_move_to (sim_bus\<lparr>lock_held := True\<rparr>) 1 2048 3400 254)
       = Some [Call (MoveTo 1 2048 3400 254) True]
   \<and> read_temperature (sim_bus\<lparr>lock_held := True\<rparr>) 1 = None"
  by (simp add: bus_move_to_def read_temperature_def read_telemetry_def bus_defs scenario_defs)

end
